theory Spec2Isabelle
  imports Main
begin

section \<open>JavaScript values\<close>

text \<open>
  The engine is TypeScript over untyped request data, so the values that flow through
  filters, primary-key payloads and rows are JavaScript values. Numbers are modelled as
  mathematical integers plus \<open>NaN\<close> (the only non-integer that \<open>parseInt\<close> can
  produce); fractional numbers, infinities and the loss of precision beyond 2^53 are
  outside the model. A string is the list of its UTF-16 code units, each below 256
  (\<open>CHR 0xA0\<close> is the no-break space U+00A0); strings with a code unit beyond U+00FF
  are outside the model. An object is the list of its own enumerable properties in
  enumeration order (insertion order, as for every property name that is not an array
  index); a read that misses the own properties falls through to \<open>Object.prototype\<close>.
\<close>

datatype jsnum = NaN | Num int

datatype jsval =
    JUndefined
  | JNull
  | JBool bool
  | JNum jsnum
  | JStr string
  | JArr "jsval list"
  | JObj "(string \<times> jsval) list"
  | JInherited string

text \<open>The property names every plain object inherits from \<open>Object.prototype\<close>.\<close>

definition proto_names :: "string list" where
  "proto_names =
     [''constructor'', ''__defineGetter__'', ''__defineSetter__'', ''hasOwnProperty'',
      ''__lookupGetter__'', ''__lookupSetter__'', ''isPrototypeOf'',
      ''propertyIsEnumerable'', ''toString'', ''valueOf'', ''__proto__'',
      ''toLocaleString'']"

datatype 'a property = Own 'a | Inherited | Missing

text \<open>\<open>obj[k]\<close> on an object literal \<open>{}\<close> that was filled by assignments.\<close>

definition js_lookup :: "(string \<times> 'a) list \<Rightarrow> string \<Rightarrow> 'a property" where
  "js_lookup obj k =
     (case map_of obj k of
        Some v \<Rightarrow> Own v
      | None \<Rightarrow> if k \<in> set proto_names then Inherited else Missing)"

text \<open>\<open>obj[k] = v\<close>: an existing own property keeps its place, a new one goes last.\<close>

definition js_assign :: "(string \<times> 'a) list \<Rightarrow> string \<Rightarrow> 'a \<Rightarrow> (string \<times> 'a) list" where
  "js_assign obj k v =
     (if k \<in> set (map fst obj)
      then map (\<lambda>(k', v'). if k' = k then (k', v) else (k', v')) obj
      else obj @ [(k, v)])"

text \<open>\<open>row[k]\<close> on a value: only objects carry the properties the engine reads.\<close>

definition js_get :: "jsval \<Rightarrow> string \<Rightarrow> jsval" where
  "js_get v k =
     (case v of
        JObj ps \<Rightarrow>
          (case js_lookup ps k of
             Own w \<Rightarrow> w
           | Inherited \<Rightarrow> JInherited k
           | Missing \<Rightarrow> JUndefined)
      | _ \<Rightarrow> JUndefined)"

subsection \<open>Number to string, string to number\<close>

fun string_of_nat :: "nat \<Rightarrow> string" where
  "string_of_nat n =
     (if n < 10 then [char_of (48 + n)]
      else string_of_nat (n div 10) @ [char_of (48 + n mod 10)])"

declare string_of_nat.simps [simp del]

definition string_of_int :: "int \<Rightarrow> string" where
  "string_of_int i = (if i < 0 then CHR ''-'' # string_of_nat (nat (- i)) else string_of_nat (nat i))"

definition string_of_jsnum :: "jsnum \<Rightarrow> string" where
  "string_of_jsnum n = (case n of NaN \<Rightarrow> ''NaN'' | Num i \<Rightarrow> string_of_int i)"

fun join :: "string \<Rightarrow> string list \<Rightarrow> string" where
  "join sep [] = []"
| "join sep [x] = x"
| "join sep (x # y # ys) = x @ sep @ join sep (y # ys)"

text \<open>
  \<open>'' + v\<close>: the string a value turns into under concatenation and as a property key.
  An array joins its elements with commas, \<open>null\<close> and \<open>undefined\<close> elements as
  empty strings.
\<close>

fun js_to_string :: "jsval \<Rightarrow> string" where
  "js_to_string JUndefined = ''undefined''"
| "js_to_string JNull = ''null''"
| "js_to_string (JBool b) = (if b then ''true'' else ''false'')"
| "js_to_string (JNum n) = string_of_jsnum n"
| "js_to_string (JStr s) = s"
| "js_to_string (JArr xs) =
     join '','' (map (\<lambda>x. if x = JNull \<or> x = JUndefined then [] else js_to_string x) xs)"
| "js_to_string (JObj ps) = ''[object Object]''"
| "js_to_string (JInherited k) =
     (if k = ''__proto__'' then ''[object Object]''
      else ''function '' @ k @ ''() { [native code] }'')"

text \<open>
  The white space and line terminators \<open>parseInt\<close> skips, among the code units below
  256: tab, line feed, vertical tab, form feed, carriage return, space and the no-break
  space. (The others are U+FEFF, U+2028, U+2029 and the space separators from U+1680 on.)
\<close>

definition is_ws :: "char \<Rightarrow> bool" where
  "is_ws c =
     (c \<in> set [CHR 0x09, CHR 0x0A, CHR 0x0B, CHR 0x0C, CHR 0x0D, CHR 0x20, CHR 0xA0])"

definition is_digit :: "char \<Rightarrow> bool" where
  "is_digit c = ((48::nat) \<le> of_char c \<and> (of_char c :: nat) \<le> 57)"

definition digits_value :: "string \<Rightarrow> nat" where
  "digits_value ds = foldl (\<lambda>acc c. 10 * acc + ((of_char c :: nat) - 48)) 0 ds"

text \<open>
  \<open>parseInt(s, 10)\<close>: leading white space is skipped, one sign is read, then the
  longest run of decimal digits; no digit at all gives \<open>NaN\<close>.
\<close>

definition parseInt :: "string \<Rightarrow> jsnum" where
  "parseInt s =
     (let s1 = dropWhile is_ws s;
          neg = (case s1 of c # _ \<Rightarrow> c = CHR ''-'' | [] \<Rightarrow> False);
          s2 = (case s1 of c # r \<Rightarrow> if c = CHR ''-'' \<or> c = CHR ''+'' then r else s1 | [] \<Rightarrow> s1);
          ds = takeWhile is_digit s2
      in if ds = [] then NaN
         else Num (if neg then - int (digits_value ds) else int (digits_value ds)))"

section \<open>Errors\<close>

text \<open>
  The engine raises \<open>HttpException(status, message)\<close>; a read of a property of
  \<open>undefined\<close> raises the runtime's \<open>TypeError\<close>.
\<close>

datatype exn = HttpException nat string | TypeError

section \<open>Authorization gate\<close>

record IRole =
  role_id :: int
  role_name :: string

record IUser =
  roles :: "IRole list"

definition unauthenticated :: IUser where
  "unauthenticated = \<lparr> roles = [\<lparr> role_id = 0, role_name = ''unauthenticated'' \<rparr>] \<rparr>"

text \<open>
  \<open>!!roles.find(cb)\<close>: \<open>find\<close> returns the first element the callback accepts, or
  \<open>undefined\<close>, and \<open>!!\<close> reads that element's truthiness: a string is truthy unless
  it is empty.
\<close>

definition truthy_found :: "string option \<Rightarrow> bool" where
  "truthy_found r = (case r of None \<Rightarrow> False | Some s \<Rightarrow> s \<noteq> [])"

text \<open>
  \<open>hasAuthorization(roles, user)\<close> of the query utilities. \<open>roles\<close> is \<open>None\<close> when
  the list is absent; \<open>user\<close> is \<open>None\<close> when the argument is \<open>undefined\<close>, which
  selects the default parameter.
\<close>

definition hasAuthorization :: "string list option \<Rightarrow> IUser option \<Rightarrow> bool" where
  "hasAuthorization rs user =
     (let u = (case user of None \<Rightarrow> unauthenticated | Some u' \<Rightarrow> u')
      in case rs of
           None \<Rightarrow> True
         | Some rl \<Rightarrow>
             if length rl = 0 then True
             else truthy_found
                    (find (\<lambda>role. if role = ''all'' then True
                                   else find (\<lambda>userRole. role_name userRole = role) (roles u) \<noteq> None)
                       rl))"

text \<open>
  The older copy of the gate (\<open>src/api/utils/index.ts\<close>) starts from the string
  \<open>'true'\<close> and tests the found element with \<open>? true : false\<close>.
\<close>

definition hasAuthorization_index :: "string list option \<Rightarrow> IUser option \<Rightarrow> bool" where
  "hasAuthorization_index tableRoles user =
     (let u = (case user of None \<Rightarrow> unauthenticated | Some u' \<Rightarrow> u');
          isAuthorized =
            (case tableRoles of
               None \<Rightarrow> Some ''true''
             | Some rl \<Rightarrow>
                 if length rl = 0 then Some ''true''
                 else find (\<lambda>tableRole. if tableRole = ''all'' then True
                                         else (case find (\<lambda>userRole. role_name userRole = tableRole) (roles u) of
                                                 Some _ \<Rightarrow> True | None \<Rightarrow> False))
                        rl)
      in if truthy_found isAuthorized then True else False)"

section \<open>Table configuration\<close>

record IColumnRelation =
  rel_table :: string
  rel_key :: string
  rel_display :: string

datatype target = main | detail

record IColumnInfo =
  name :: string
  type :: string
  visible :: "target \<Rightarrow> bool"
  relation :: "IColumnRelation option"

text \<open>\<open>pk\<close> is one column name or, for a composite key, a list of column names.\<close>

datatype pk_decl = PkString string | PkArray "string list"

record IManyToMany =
  relationTable :: string
  localId :: string
  foreignKey :: string
  remoteTable :: string
  remoteId :: string
  remoteForeignKey :: string

text \<open>
  The fields of \<open>ITableInfo\<close> the engine reads here. \<open>chips\<close> keeps, for each chip,
  the names of its columns; \<open>manyToMany\<close> is \<open>relations.manyToMany\<close>, \<open>None\<close> when
  \<open>relations\<close> or the list is absent.
\<close>

record ITableInfo =
  table_name :: string
  columns :: "IColumnInfo list"
  pk :: pk_decl
  chips :: "string list list option"
  manyToMany :: "IManyToMany list option"

definition pk_names :: "pk_decl \<Rightarrow> string list" where
  "pk_names p = (case p of PkString s \<Rightarrow> [s] | PkArray ks \<Rightarrow> ks)"

section \<open>Visible columns\<close>

text \<open>\<open>s.indexOf(sub) >= 0\<close> on strings: \<open>sub\<close> occurs in \<open>s\<close>.\<close>

fun str_includes :: "string \<Rightarrow> string \<Rightarrow> bool" where
  "str_includes [] sub = (sub = [])"
| "str_includes (c # s) sub = (take (length sub) (c # s) = sub \<or> str_includes s sub)"

text \<open>
  \<open>table.pk.indexOf(column.name) >= 0\<close>: membership when \<open>pk\<close> is a list, an
  occurrence as a substring when \<open>pk\<close> is a string.
\<close>

definition pk_indexOf_found :: "pk_decl \<Rightarrow> string \<Rightarrow> bool" where
  "pk_indexOf_found p n = (case p of PkString s \<Rightarrow> str_includes s n | PkArray ks \<Rightarrow> n \<in> set ks)"

definition chipColumns :: "ITableInfo \<Rightarrow> target \<Rightarrow> (string \<times> bool) list" where
  "chipColumns table tg =
     (case chips table of
        Some cs \<Rightarrow>
          if tg = main
          then foldl (\<lambda>toKeep chip. foldl (\<lambda>toKeep' column. js_assign toKeep' column True) toKeep chip) [] cs
          else []
      | None \<Rightarrow> [])"

definition truthy_property :: "bool property \<Rightarrow> bool" where
  "truthy_property p = (case p of Own b \<Rightarrow> b | Inherited \<Rightarrow> True | Missing \<Rightarrow> False)"

definition filterVisibleTableColumns :: "ITableInfo \<Rightarrow> target \<Rightarrow> string list" where
  "filterVisibleTableColumns table tg =
     (let toKeep = chipColumns table tg
      in map name
           (filter (\<lambda>column. visible column tg \<or> pk_indexOf_found (pk table) (name column)
                              \<or> truthy_property (js_lookup toKeep (name column)))
              (columns table)))"

section \<open>Query builder\<close>

text \<open>
  A query is the list of the builder calls made on it, in call order. \<open>Table t\<close> is
  \<open>DB(t)\<close>; \<open>WhereObj k v\<close> is \<open>where({[k]: v})\<close>; \<open>WhereLike k p\<close> is
  \<open>where(k, 'like', p)\<close>; \<open>AndWhereFn cs\<close> is \<open>andWhere(fn)\<close> where \<open>fn\<close> makes
  the calls \<open>cs\<close> on the inner builder.
\<close>

datatype knex_call =
    Table string
  | Select "string list"
  | From string
  | Where string jsval
  | WhereObj string jsval
  | WhereLike string string
  | WhereNull string
  | WhereIn string "jsval list"
  | AndWhereObj string jsval
  | AndWhereLike string string
  | AndWhereFn "knex_call list"
  | Offset jsnum
  | Limit jsnum

type_synonym query = "knex_call list"

type_synonym row = "(string \<times> jsval) list"

section \<open>Filters\<close>

definition getColumnsByName :: "ITableInfo \<Rightarrow> (string \<times> IColumnInfo) list" where
  "getColumnsByName TABLE_CONFIG =
     foldl (\<lambda>columnsByName column. js_assign columnsByName (name column) column) [] (columns TABLE_CONFIG)"

definition numeric_type :: "string \<Rightarrow> bool" where
  "numeric_type t = (t = ''int(11)'' \<or> t = ''smallint(5)'' \<or> t = ''datetime'')"

text \<open>The body of the \<open>forEach\<close> of \<open>applyQueryFilters\<close>, once the type test is made.\<close>

definition filter_call :: "bool \<Rightarrow> nat \<Rightarrow> string \<Rightarrow> jsval \<Rightarrow> knex_call" where
  "filter_call numeric index key v =
     (if numeric then
        (if index = 0 then
           (if v = JNull then WhereNull key
            else case v of JArr xs \<Rightarrow> WhereIn key xs | _ \<Rightarrow> WhereObj key v)
         else
           (if v = JNull then AndWhereFn [WhereNull key]
            else case v of JArr xs \<Rightarrow> WhereIn key xs | _ \<Rightarrow> AndWhereObj key v))
      else
        (if index = 0 then
           (if v = JNull then WhereNull key
            else case v of JArr xs \<Rightarrow> WhereIn key xs
                 | _ \<Rightarrow> WhereLike key (''%'' @ js_to_string v @ ''%''))
         else
           (if v = JNull then AndWhereFn [WhereNull key]
            else case v of JArr xs \<Rightarrow> WhereIn key xs
                 | _ \<Rightarrow> AndWhereLike key (''%'' @ js_to_string v @ ''%''))))"

text \<open>
  The \<open>forEach\<close> over \<open>Object.keys(FILTERS)\<close>. \<open>columnsByName[key].type\<close> raises
  when \<open>columnsByName[key]\<close> is \<open>undefined\<close>, and is \<open>undefined\<close> itself on an
  inherited member. The builder is mutated in place, so an exception leaves the calls
  already made on it: the error carries the builder as it stands.
\<close>

fun filters_forEach ::
  "(string \<times> IColumnInfo) list \<Rightarrow> query \<Rightarrow> nat \<Rightarrow> (string \<times> jsval) list \<Rightarrow> (exn \<times> query) + query" where
  "filters_forEach columnsByName QUERY index [] = Inr QUERY"
| "filters_forEach columnsByName QUERY index ((key, v) # rest) =
     (case js_lookup columnsByName key of
        Missing \<Rightarrow> Inl (TypeError, QUERY)
      | Inherited \<Rightarrow>
          filters_forEach columnsByName (QUERY @ [filter_call False index key v]) (Suc index) rest
      | Own column \<Rightarrow>
          filters_forEach columnsByName
            (QUERY @ [filter_call (numeric_type (type column)) index key v]) (Suc index) rest)"

text \<open>
  \<open>applyQueryFilters(QUERY, filters, TABLE_CONFIG)\<close>; \<open>FILTERS\<close> is the filter
  object (parsed when it came as a string), as its entries in key order.
\<close>

definition applyQueryFilters ::
  "query \<Rightarrow> (string \<times> jsval) list \<Rightarrow> ITableInfo \<Rightarrow> (exn \<times> query) + query" where
  "applyQueryFilters QUERY FILTERS TABLE_CONFIG =
     filters_forEach (getColumnsByName TABLE_CONFIG) QUERY 0 FILTERS"

section \<open>Primary-key filters\<close>

definition pk_call :: "bool \<Rightarrow> nat \<Rightarrow> string \<Rightarrow> jsval \<Rightarrow> knex_call" where
  "pk_call is_int index key v =
     (if is_int then (if index = 0 then WhereObj key v else AndWhereObj key v)
      else (if index = 0 then WhereLike key (''%'' @ js_to_string v @ ''%'')
            else AndWhereLike key (''%'' @ js_to_string v @ ''%'')))"

fun pk_for ::
  "pk_decl \<Rightarrow> (string \<times> IColumnInfo) list \<Rightarrow> query \<Rightarrow> nat \<Rightarrow> (string \<times> jsval) list \<Rightarrow> (exn \<times> query) + query" where
  "pk_for p columnsByName QUERY index [] = Inr QUERY"
| "pk_for p columnsByName QUERY index ((key, v) # rest) =
     (let valid = (case p of PkArray ks \<Rightarrow> key \<in> set ks | PkString s \<Rightarrow> s = key)
      in if \<not> valid
         then Inl (HttpException 412 (''Primary key '' @ key @ '' missing on table''), QUERY)
         else case js_lookup columnsByName key of
                Missing \<Rightarrow> Inl (TypeError, QUERY)
              | Inherited \<Rightarrow>
                  pk_for p columnsByName (QUERY @ [pk_call False index key v]) (Suc index) rest
              | Own column \<Rightarrow>
                  pk_for p columnsByName
                    (QUERY @ [pk_call (type column = ''int(11)'') index key v]) (Suc index) rest)"

text \<open>\<open>applyPKFilters(QUERY, body, TABLE_CONFIG)\<close>; \<open>body_pk\<close> is \<open>body.pk\<close>.\<close>

definition applyPKFilters ::
  "query \<Rightarrow> (string \<times> jsval) list \<Rightarrow> ITableInfo \<Rightarrow> (exn \<times> query) + query" where
  "applyPKFilters QUERY body_pk TABLE_CONFIG =
     (let PKS = map fst body_pk
      in if (case pk TABLE_CONFIG of PkString _ \<Rightarrow> length PKS \<noteq> 1 | PkArray _ \<Rightarrow> False)
         then Inl (HttpException 412 ''Incorrect set of primary keys'', QUERY)
         else if (case pk TABLE_CONFIG of PkArray ks \<Rightarrow> length ks \<noteq> length PKS | PkString _ \<Rightarrow> False)
         then Inl (HttpException 412 ''Incorrect set of primary keys'', QUERY)
         else pk_for (pk TABLE_CONFIG) (getColumnsByName TABLE_CONFIG) QUERY 0 body_pk)"

section \<open>Pagination\<close>

text \<open>\<open>page\<close> and \<open>limit\<close> are \<open>string | number\<close>, or absent from the request.\<close>

datatype page_arg = Unspecified | AsString string | AsNumber jsnum

definition truthy_arg :: "page_arg \<Rightarrow> bool" where
  "truthy_arg a =
     (case a of Unspecified \<Rightarrow> False | AsString s \<Rightarrow> s \<noteq> [] | AsNumber n \<Rightarrow> n \<noteq> NaN \<and> n \<noteq> Num 0)"

definition to_number :: "page_arg \<Rightarrow> jsnum" where
  "to_number a = (case a of AsString s \<Rightarrow> parseInt s | AsNumber n \<Rightarrow> n | Unspecified \<Rightarrow> NaN)"

definition js_times :: "jsnum \<Rightarrow> jsnum \<Rightarrow> jsnum" where
  "js_times a b = (case (a, b) of (Num x, Num y) \<Rightarrow> Num (x * y) | _ \<Rightarrow> NaN)"

definition js_positive :: "jsnum \<Rightarrow> bool" where
  "js_positive a = (case a of Num x \<Rightarrow> x > 0 | NaN \<Rightarrow> False)"

definition paginate :: "query \<Rightarrow> page_arg \<Rightarrow> page_arg \<Rightarrow> query" where
  "paginate query page limit =
     (let PAGE_NUMBER = (if truthy_arg page then to_number page else Num 0);
          LIMIT = (if truthy_arg limit then to_number limit else Num 10)
      in if js_positive LIMIT
         then query @ [Offset (js_times PAGE_NUMBER LIMIT), Limit LIMIT]
         else query)"

section \<open>Before-hook filters\<close>

definition js_truthy :: "jsval \<Rightarrow> bool" where
  "js_truthy v =
     (case v of
        JUndefined \<Rightarrow> False
      | JNull \<Rightarrow> False
      | JBool b \<Rightarrow> b
      | JNum n \<Rightarrow> n \<noteq> NaN \<and> n \<noteq> Num 0
      | JStr s \<Rightarrow> s \<noteq> []
      | _ \<Rightarrow> True)"

text \<open>
  \<open>Object.keys(v)\<close> paired with \<open>v[key]\<close>, for a truthy \<open>v\<close>: the own properties of
  an object, the indices of an array or a string, nothing for another primitive or a
  function.
\<close>

definition own_entries :: "jsval \<Rightarrow> (string \<times> jsval) list" where
  "own_entries v =
     (case v of
        JObj ps \<Rightarrow> ps
      | JArr xs \<Rightarrow> zip (map string_of_nat [0 ..< length xs]) xs
      | JStr s \<Rightarrow> zip (map string_of_nat [0 ..< length s]) (map (\<lambda>c. JStr [c]) s)
      | _ \<Rightarrow> [])"

text \<open>
  The block of \<open>getTableData\<close> that merges the before-hook's \<open>filter\<close> into the
  query (the same block stands in \<open>getDistinctTableData\<close>).
\<close>

definition applyHookFilter :: "query \<Rightarrow> jsval \<Rightarrow> query" where
  "applyHookFilter QUERY hookResult =
     (if js_truthy hookResult then
        (if js_truthy (js_get hookResult ''filter'') then
           foldl (\<lambda>q (column, v). case v of JArr xs \<Rightarrow> q @ [WhereIn column xs] | _ \<Rightarrow> q)
             QUERY (own_entries (js_get hookResult ''filter''))
         else QUERY)
      else QUERY)"

section \<open>Verbose related data\<close>

text \<open>
  The store is reached through the query builder only: \<open>DB\<close> below is what awaiting a
  built query returns, the rows it selects.
\<close>

record IToRequestItem =
  values' :: "jsval list"
  key :: string
  display :: string
  foreignKeyColumn :: string

definition toRequestBuilder :: "IColumnRelation \<Rightarrow> string \<Rightarrow> IToRequestItem" where
  "toRequestBuilder rel columnName =
     \<lparr> values' = [], key = rel_key rel, display = rel_display rel, foreignKeyColumn = columnName \<rparr>"

text \<open>\<open>Set.add\<close>: a set keeps its elements in insertion order, each once.\<close>

definition set_add :: "jsval list \<Rightarrow> jsval \<Rightarrow> jsval list" where
  "set_add vs v = (if v \<in> set vs then vs else vs @ [v])"

definition getColumnsWithRelations :: "ITableInfo \<Rightarrow> IColumnInfo list" where
  "getColumnsWithRelations TABLE_CONFIG = filter (\<lambda>column. relation column \<noteq> None) (columns TABLE_CONFIG)"

text \<open>
  The inner \<open>forEach\<close> over the relation columns, for one row. \<open>toRequest\<close> is keyed
  by the related table's name; on an inherited member \<open>toRequest[name]\<close> is truthy and
  has no set to add to.
\<close>

fun request_columns ::
  "row \<Rightarrow> (string \<times> IToRequestItem) list \<Rightarrow> IColumnInfo list \<Rightarrow> exn + (string \<times> IToRequestItem) list" where
  "request_columns r toRequest [] = Inr toRequest"
| "request_columns r toRequest (column # cs) =
     (case relation column of
        None \<Rightarrow> Inl (HttpException 500 ''Column should have a relation'')
      | Some rel \<Rightarrow>
          (case js_lookup toRequest (rel_table rel) of
             Inherited \<Rightarrow> Inl TypeError
           | Missing \<Rightarrow>
               request_columns r
                 (js_assign toRequest (rel_table rel)
                    ((toRequestBuilder rel (name column))
                       \<lparr> values' := set_add [] (js_get (JObj r) (name column)) \<rparr>)) cs
           | Own item \<Rightarrow>
               request_columns r
                 (js_assign toRequest (rel_table rel)
                    (item \<lparr> values' := set_add (values' item) (js_get (JObj r) (name column)) \<rparr>)) cs))"

fun request_rows ::
  "(string \<times> IToRequestItem) list \<Rightarrow> IColumnInfo list \<Rightarrow> row list \<Rightarrow> exn + (string \<times> IToRequestItem) list" where
  "request_rows toRequest cs [] = Inr toRequest"
| "request_rows toRequest cs (r # rs) =
     (case request_columns r toRequest cs of
        Inl e \<Rightarrow> Inl e
      | Inr toRequest' \<Rightarrow> request_rows toRequest' cs rs)"

definition relationQueries :: "(string \<times> IToRequestItem) list \<Rightarrow> query list" where
  "relationQueries toRequest =
     map (\<lambda>(tableName, item). [Select [display item, key item], From tableName,
                                 WhereIn (key item) (values' item)]) toRequest"

text \<open>\<open>MATCHER[foreignKeyColumn][value] = display\<close>, filled from the related rows.\<close>

definition matcher_of :: "IToRequestItem \<Rightarrow> row list \<Rightarrow> (string \<times> jsval) list" where
  "matcher_of requestedTable relationRows =
     foldl (\<lambda>m relationRow.
              js_assign m (js_to_string (js_get (JObj relationRow) (key requestedTable)))
                (js_get (JObj relationRow) (display requestedTable)))
       [] relationRows"

definition build_matcher ::
  "IToRequestItem list \<Rightarrow> row list list \<Rightarrow> (string \<times> (string \<times> jsval) list) list" where
  "build_matcher requested relationResults =
     foldl (\<lambda>MATCHER (requestedTable, relationRows).
              js_assign MATCHER (foreignKeyColumn requestedTable) (matcher_of requestedTable relationRows))
       [] (zip requested relationResults)"

text \<open>The rewrite of one row: \<open>row[ROW_KEY] = MATCHER[ROW_KEY][row[ROW_KEY]]\<close>.\<close>

fun rewrite_row ::
  "(string \<times> (string \<times> jsval) list) list \<Rightarrow> row \<Rightarrow> IToRequestItem list \<Rightarrow> exn + row" where
  "rewrite_row MATCHER r [] = Inr r"
| "rewrite_row MATCHER r (requestedTable # rest) =
     (case js_lookup MATCHER (foreignKeyColumn requestedTable) of
        Own m \<Rightarrow>
          rewrite_row MATCHER
            (js_assign r (foreignKeyColumn requestedTable)
               (js_get (JObj m) (js_to_string (js_get (JObj r) (foreignKeyColumn requestedTable)))))
            rest
      | _ \<Rightarrow> Inl TypeError)"

fun rewrite_rows ::
  "(string \<times> (string \<times> jsval) list) list \<Rightarrow> IToRequestItem list \<Rightarrow> row list \<Rightarrow> exn + row list" where
  "rewrite_rows MATCHER requested [] = Inr []"
| "rewrite_rows MATCHER requested (r # rs) =
     (case rewrite_row MATCHER r requested of
        Inl e \<Rightarrow> Inl e
      | Inr r' \<Rightarrow>
          (case rewrite_rows MATCHER requested rs of
             Inl e \<Rightarrow> Inl e
           | Inr rs' \<Rightarrow> Inr (r' # rs')))"

definition addVerboseRelatedData ::
  "row list \<Rightarrow> ITableInfo \<Rightarrow> (query \<Rightarrow> row list) \<Rightarrow> exn + row list" where
  "addVerboseRelatedData results TABLE_CONFIG DB =
     (case request_rows [] (getColumnsWithRelations TABLE_CONFIG) results of
        Inl e \<Rightarrow> Inl e
      | Inr toRequest \<Rightarrow>
          (let relationResults = map DB (relationQueries toRequest);
               MATCHER = build_matcher (map snd toRequest) relationResults
           in rewrite_rows MATCHER (map snd toRequest) results))"

section \<open>Many-to-many relations\<close>




section \<open>A store of rows\<close>

text \<open>
  A plain store for the worked examples: a table is a list of rows, \<open>where\<close> keeps the
  rows whose column equals the value, \<open>whereIn\<close> those whose column is one of the
  values, and \<open>select\<close> with column names projects onto them.
\<close>

definition query_table :: "query \<Rightarrow> string option" where
  "query_table q =
     foldl (\<lambda>t c. case c of Table n \<Rightarrow> Some n | From n \<Rightarrow> Some n | _ \<Rightarrow> t) None q"

definition row_matches :: "row \<Rightarrow> knex_call \<Rightarrow> bool" where
  "row_matches r c =
     (case c of
        Where k v \<Rightarrow> js_get (JObj r) k = v
      | WhereIn k vs \<Rightarrow> js_get (JObj r) k \<in> set vs
      | _ \<Rightarrow> True)"

definition query_columns :: "query \<Rightarrow> string list" where
  "query_columns q = foldl (\<lambda>cs c. case c of Select ns \<Rightarrow> cs @ ns | _ \<Rightarrow> cs) [] q"

definition run_query :: "(string \<times> row list) list \<Rightarrow> query \<Rightarrow> row list" where
  "run_query store q =
     (let rows = (case query_table q of
                    None \<Rightarrow> []
                  | Some t \<Rightarrow> (case map_of store t of Some rs \<Rightarrow> rs | None \<Rightarrow> []));
          kept = filter (\<lambda>r. list_all (row_matches r) q) rows
      in if query_columns q = [] then kept
         else map (\<lambda>r. filter (\<lambda>(k, v). k \<in> set (query_columns q)) r) kept)"

section \<open>Reference readings\<close>

text \<open>
  What the specification says of each operation, written independently of the loops
  above, to compare them with.
\<close>

text \<open>The column a name denotes: a later declaration of the same name replaces an earlier one.\<close>

definition column_named :: "ITableInfo \<Rightarrow> string \<Rightarrow> IColumnInfo option" where
  "column_named TABLE_CONFIG k = find (\<lambda>column. name column = k) (rev (columns TABLE_CONFIG))"

definition column_type :: "ITableInfo \<Rightarrow> string \<Rightarrow> string option" where
  "column_type TABLE_CONFIG k = map_option type (column_named TABLE_CONFIG k)"

text \<open>
  One filter entry: \<open>IS NULL\<close> for \<open>null\<close>, \<open>IN\<close> for a list, and for any other
  value equality on a numeric or temporal column and a \<open>%value%\<close> pattern on any other
  column. The first entry uses the plain call, a later one the \<open>and\<close> call; \<open>whereIn\<close>
  is the builder's conjunctive \<open>IN\<close> in both positions.
\<close>

definition spec_filter_predicate :: "string option \<Rightarrow> bool \<Rightarrow> string \<Rightarrow> jsval \<Rightarrow> knex_call" where
  "spec_filter_predicate ty first k v =
     (case v of
        JNull \<Rightarrow> if first then WhereNull k else AndWhereFn [WhereNull k]
      | JArr xs \<Rightarrow> WhereIn k xs
      | _ \<Rightarrow>
          if ty \<in> {Some ''int(11)'', Some ''smallint(5)'', Some ''datetime''}
          then (if first then WhereObj k v else AndWhereObj k v)
          else (if first then WhereLike k (''%'' @ js_to_string v @ ''%'')
                else AndWhereLike k (''%'' @ js_to_string v @ ''%'')))"

definition spec_filter_calls :: "ITableInfo \<Rightarrow> nat \<Rightarrow> (string \<times> jsval) list \<Rightarrow> query" where
  "spec_filter_calls TABLE_CONFIG start entries =
     map (\<lambda>(i, (k, v)). spec_filter_predicate (column_type TABLE_CONFIG k) (i = 0) k v)
       (enumerate start entries)"

text \<open>
  The keys \<open>columnsByName[key]\<close> finds something for: a declared column, or a member
  every object inherits.
\<close>

definition known_key :: "ITableInfo \<Rightarrow> string \<Rightarrow> bool" where
  "known_key TABLE_CONFIG k = (k \<in> name ` set (columns TABLE_CONFIG) \<or> k \<in> set proto_names)"

text \<open>
  One primary-key entry: an exact match on an \<open>int(11)\<close> column, a \<open>%value%\<close>
  pattern on any other.
\<close>

definition spec_pk_predicate :: "string option \<Rightarrow> bool \<Rightarrow> string \<Rightarrow> jsval \<Rightarrow> knex_call" where
  "spec_pk_predicate ty first k v =
     (if ty = Some ''int(11)''
      then (if first then WhereObj k v else AndWhereObj k v)
      else (if first then WhereLike k (''%'' @ js_to_string v @ ''%'')
            else AndWhereLike k (''%'' @ js_to_string v @ ''%'')))"

definition spec_pk_calls :: "ITableInfo \<Rightarrow> nat \<Rightarrow> (string \<times> jsval) list \<Rightarrow> query" where
  "spec_pk_calls TABLE_CONFIG start entries =
     map (\<lambda>(i, (k, v)). spec_pk_predicate (column_type TABLE_CONFIG k) (i = 0) k v)
       (enumerate start entries)"

text \<open>The resolved page or limit: the argument when it is truthy, the default otherwise.\<close>

definition resolved :: "jsnum \<Rightarrow> page_arg \<Rightarrow> jsnum" where
  "resolved dflt a = (if truthy_arg a then to_number a else dflt)"

definition is_list :: "jsval \<Rightarrow> bool" where
  "is_list v = (case v of JArr _ \<Rightarrow> True | _ \<Rightarrow> False)"

definition list_elements :: "jsval \<Rightarrow> jsval list" where
  "list_elements v = (case v of JArr xs \<Rightarrow> xs | _ \<Rightarrow> [])"





section \<open>Example configuration\<close>

definition products_table :: ITableInfo where
  "products_table =
     \<lparr> table_name = ''products'',
       columns =
         [\<lparr> name = ''id'', type = ''int(11)'', visible = (\<lambda>t. False), relation = None \<rparr>,
          \<lparr> name = ''title'', type = ''varchar(255)'', visible = (\<lambda>t. True), relation = None \<rparr>,
          \<lparr> name = ''categoryId'', type = ''int(11)'', visible = (\<lambda>t. True),
            relation = Some \<lparr> rel_table = ''categories'', rel_key = ''id'', rel_display = ''name'' \<rparr> \<rparr>],
       pk = PkString ''id'',
       chips = None,
       manyToMany =
         Some [\<lparr> relationTable = ''product_tags'', localId = ''id'', foreignKey = ''product_id'',
                 remoteTable = ''tags'', remoteId = ''id'', remoteForeignKey = ''tag_id'' \<rparr>] \<rparr>"

definition events_table :: ITableInfo where
  "events_table =
     \<lparr> table_name = ''events'',
       columns =
         [\<lparr> name = ''id'', type = ''int(11)'', visible = (\<lambda>t. True), relation = None \<rparr>,
          \<lparr> name = ''rank'', type = ''smallint(5)'', visible = (\<lambda>t. True), relation = None \<rparr>,
          \<lparr> name = ''at'', type = ''datetime'', visible = (\<lambda>t. True), relation = None \<rparr>,
          \<lparr> name = ''title'', type = ''varchar(255)'', visible = (\<lambda>t. True), relation = None \<rparr>,
          \<lparr> name = ''note'', type = ''text'', visible = (\<lambda>t. False), relation = None \<rparr>],
       pk = PkString ''id'',
       chips = Some [[''note'']],
       manyToMany = None \<rparr>"

definition ab_table :: ITableInfo where
  "ab_table =
     \<lparr> table_name = ''ab'',
       columns =
         [\<lparr> name = ''a'', type = ''int(11)'', visible = (\<lambda>t. True), relation = None \<rparr>,
          \<lparr> name = ''b'', type = ''varchar(32)'', visible = (\<lambda>t. True), relation = None \<rparr>],
       pk = PkArray [''a'', ''b''],
       chips = None,
       manyToMany = None \<rparr>"

definition orders_table :: ITableInfo where
  "orders_table =
     \<lparr> table_name = ''orders'',
       columns =
         [\<lparr> name = ''id'', type = ''int(11)'', visible = (\<lambda>t. True), relation = None \<rparr>,
          \<lparr> name = ''createdBy'', type = ''int(11)'', visible = (\<lambda>t. True),
            relation = Some \<lparr> rel_table = ''users'', rel_key = ''id'', rel_display = ''name'' \<rparr> \<rparr>,
          \<lparr> name = ''updatedBy'', type = ''int(11)'', visible = (\<lambda>t. True),
            relation = Some \<lparr> rel_table = ''users'', rel_key = ''id'', rel_display = ''name'' \<rparr> \<rparr>],
       pk = PkString ''id'',
       chips = None,
       manyToMany = None \<rparr>"

definition example_store :: "(string \<times> row list) list" where
  "example_store =
     [(''categories'', [[(''id'', JNum (Num 5)), (''name'', JStr ''Books'')]]),
      (''users'', [[(''id'', JNum (Num 1)), (''name'', JStr ''Ann'')],
                   [(''id'', JNum (Num 2)), (''name'', JStr ''Bob'')]]),
      (''product_tags'', [[(''product_id'', JNum (Num 1)), (''tag_id'', JNum (Num 9))],
                          [(''product_id'', JNum (Num 1)), (''tag_id'', JNum (Num 10))],
                          [(''product_id'', JNum (Num 2)), (''tag_id'', JNum (Num 11))]]),
      (''tags'', [[(''id'', JNum (Num 9)), (''label'', JStr ''new'')],
                  [(''id'', JNum (Num 10)), (''label'', JStr ''sale'')],
                  [(''id'', JNum (Num 11)), (''label'', JStr ''used'')]])]"


section \<open>Objects and lookups\<close>

lemma find_SomeD: "find P xs = Some x \<Longrightarrow> P x \<and> x \<in> set xs"
  by (induction xs) (auto split: if_splits)

lemma map_of_js_assign: "map_of (js_assign obj k v) = (map_of obj)(k \<mapsto> v)"
proof (cases "k \<in> set (map fst obj)")
  case False
  then have "map_of obj k = None" by (simp add: map_of_eq_None_iff)
  then show ?thesis using False
    by (auto simp: js_assign_def fun_eq_iff map_add_def split: option.splits)
next
  case True
  have "map_of (map (\<lambda>(k', v'). if k' = k then (k', v) else (k', v')) obj) =
        (\<lambda>x. if x = k then (if k \<in> set (map fst obj) then Some v else None) else map_of obj x)"
    by (induction obj) (auto simp: fun_eq_iff)
  with True show ?thesis by (auto simp: js_assign_def fun_eq_iff)
qed

lemma map_of_foldl_js_assign:
  "map_of (foldl (\<lambda>acc x. js_assign acc (f x) (g x)) acc0 xs) k =
     (case find (\<lambda>x. f x = k) (rev xs) of Some x \<Rightarrow> Some (g x) | None \<Rightarrow> map_of acc0 k)"
proof (induction xs rule: rev_induct)
  case Nil
  then show ?case by simp
next
  case (snoc x xs)
  then show ?case by (simp add: map_of_js_assign)
qed



lemma map_of_getColumnsByName: "map_of (getColumnsByName tbl) k = column_named tbl k"
  unfolding getColumnsByName_def column_named_def
  by (simp add: map_of_foldl_js_assign split: option.splits)

lemma column_named_declared:
  "k \<in> name ` set (columns tbl) \<Longrightarrow>
     \<exists>c. column_named tbl k = Some c \<and> name c = k \<and> c \<in> set (columns tbl)"
proof (cases "find (\<lambda>column. name column = k) (rev (columns tbl))")
  case None
  then have "\<not> (\<exists>x\<in>set (rev (columns tbl)). name x = k)" by (auto simp: find_None_iff)
  moreover assume "k \<in> name ` set (columns tbl)"
  ultimately show ?thesis by auto
next
  case (Some c)
  then have "name c = k" "c \<in> set (rev (columns tbl))"
    by (auto dest: find_SomeD)
  with Some show ?thesis by (simp add: column_named_def)
qed

lemma column_named_undeclared:
  "k \<notin> name ` set (columns tbl) \<Longrightarrow> column_named tbl k = None"
  unfolding column_named_def by (auto simp: find_None_iff)

lemma js_lookup_columns:
  "js_lookup (getColumnsByName tbl) k =
     (case column_named tbl k of
        Some c \<Rightarrow> Own c
      | None \<Rightarrow> if k \<in> set proto_names then Inherited else Missing)"
  by (simp add: js_lookup_def map_of_getColumnsByName)

section \<open>Authorization gate: properties\<close>

lemma truthy_found_find:
  assumes "[] \<notin> set rl"
  shows "truthy_found (find P rl) = (\<exists>r\<in>set rl. P r)"
proof (cases "find P rl")
  case None
  then have "\<not> (\<exists>r\<in>set rl. P r)" by (auto simp: find_None_iff)
  with None show ?thesis by (simp add: truthy_found_def)
next
  case (Some r)
  then have "r \<in> set rl" "P r" by (auto dest: find_SomeD)
  with assms Some show ?thesis by (auto simp: truthy_found_def)
qed

text \<open>Both copies of the gate compute the same answer.\<close>

lemma hasAuthorization_index_eq: "hasAuthorization_index rs user = hasAuthorization rs user"
proof -
  have P: "\<And>u r. (case find (\<lambda>userRole. role_name userRole = r) (roles u) of
                      Some _ \<Rightarrow> True | None \<Rightarrow> False)
      = (find (\<lambda>userRole. role_name userRole = r) (roles u) \<noteq> None)"
    by (simp split: option.splits)
  show ?thesis
    unfolding hasAuthorization_index_def hasAuthorization_def Let_def P
    by (simp add: truthy_found_def split: option.splits)
qed

text \<open>
  When no required role is the empty string, the gate grants access exactly when the
  list is empty, holds \<open>all\<close>, or shares a name with the caller's roles.
\<close>

lemma hasAuthorization_named_roles:
  assumes "[] \<notin> set rl"
  shows "hasAuthorization (Some rl) user =
     (rl = [] \<or> ''all'' \<in> set rl \<or>
      (\<exists>r \<in> set rl. r \<in> role_name ` set (roles (case user of None \<Rightarrow> unauthenticated | Some u \<Rightarrow> u))))"
proof (cases "rl = []")
  case True
  then show ?thesis by (simp add: hasAuthorization_def)
next
  case False
  define u where "u = (case user of None \<Rightarrow> unauthenticated | Some u \<Rightarrow> u)"
  define P where "P = (\<lambda>role. if role = ''all'' then True
                              else find (\<lambda>userRole. role_name userRole = role) (roles u) \<noteq> None)"
  have P: "\<And>r. P r = (r = ''all'' \<or> r \<in> role_name ` set (roles u))"
    by (auto simp: P_def find_None_iff)
  have "hasAuthorization (Some rl) user = truthy_found (find P rl)"
    using False by (simp add: hasAuthorization_def P_def u_def)
  also have "\<dots> = (\<exists>r\<in>set rl. P r)" by (rule truthy_found_find[OF assms])
  also have "\<dots> = (''all'' \<in> set rl \<or> (\<exists>r \<in> set rl. r \<in> role_name ` set (roles u)))"
    unfolding P by blast
  finally show ?thesis using False by (simp add: u_def)
qed

lemma hasAuthorization_absent: "hasAuthorization None user \<and> hasAuthorization (Some []) user"
  by (simp add: hasAuthorization_def)

lemma hasAuthorization_default_user:
  "hasAuthorization rs None = hasAuthorization rs (Some unauthenticated)"
  by (simp add: hasAuthorization_def)

text \<open>
  C1. The claim: \<open>hasAuthorization(R, C)\<close> is true if and only if \<open>R\<close> is empty or
  absent, or holds \<open>all\<close>, or some name in \<open>R\<close> is the name of a role of \<open>C\<close>. The
  gate reads the truthiness of the role that \<open>find\<close> returns, not whether one was
  found: with the required role \<open>''\<close> and a caller whose role is named \<open>''\<close>, the
  names match and the gate answers false. With \<open>['', 'all']\<close> the same caller is
  refused although the list holds \<open>all\<close>.
\<close>

theorem hasAuthorization_empty_role_name:
  "hasAuthorization (Some ['''']) (Some \<lparr> roles = [\<lparr> role_id = 1, role_name = '''' \<rparr>] \<rparr>) = False \<and>
   hasAuthorization (Some ['''', ''all'']) (Some \<lparr> roles = [\<lparr> role_id = 1, role_name = '''' \<rparr>] \<rparr>) = False"
  by (simp add: hasAuthorization_def truthy_found_def)

section \<open>Visible columns: properties\<close>

lemma str_includes_refl: "str_includes s s"
  by (cases s) auto

lemma pk_indexOf_found_pk:
  "n \<in> set (pk_names p) \<Longrightarrow> pk_indexOf_found p n"
  by (cases p) (auto simp: pk_indexOf_found_def pk_names_def str_includes_refl)

text \<open>
  C10. For every table configuration and both targets, the list returned by
  \<open>filterVisibleTableColumns\<close> contains every column of the table that the primary key
  declares (the single name, or each name of a composite key), whatever the column's
  visibility flag for the target.
\<close>

theorem filterVisibleTableColumns_keeps_pk:
  assumes "c \<in> set (columns tbl)" and "name c \<in> set (pk_names (pk tbl))"
  shows "name c \<in> set (filterVisibleTableColumns tbl tg)"
proof -
  have "pk_indexOf_found (pk tbl) (name c)"
    using assms(2) by (rule pk_indexOf_found_pk)
  with assms(1) show ?thesis
    by (auto simp: filterVisibleTableColumns_def Let_def)
qed

theorem filterVisibleTableColumns_keeps_pk_witness:
  "\<not> visible (hd (columns products_table)) main \<and>
   \<not> visible (hd (columns products_table)) detail \<and>
   ''id'' \<in> set (filterVisibleTableColumns products_table main) \<and>
   ''id'' \<in> set (filterVisibleTableColumns products_table detail) \<and>
   ''a'' \<in> set (filterVisibleTableColumns ab_table main) \<and>
   ''b'' \<in> set (filterVisibleTableColumns ab_table detail)"
proof -
  have c: "hd (columns products_table) \<in> set (columns products_table)"
    and n: "name (hd (columns products_table)) = ''id''"
    and k: "name (hd (columns products_table)) \<in> set (pk_names (pk products_table))"
    by (simp_all add: products_table_def pk_names_def)
  have ca: "hd (columns ab_table) \<in> set (columns ab_table)"
    and na: "name (hd (columns ab_table)) = ''a''"
    and ka: "name (hd (columns ab_table)) \<in> set (pk_names (pk ab_table))"
    by (simp_all add: ab_table_def pk_names_def)
  have cb: "last (columns ab_table) \<in> set (columns ab_table)"
    and nb: "name (last (columns ab_table)) = ''b''"
    and kb: "name (last (columns ab_table)) \<in> set (pk_names (pk ab_table))"
    by (simp_all add: ab_table_def pk_names_def)
  have hidden: "\<not> visible (hd (columns products_table)) main"
    "\<not> visible (hd (columns products_table)) detail"
    by (simp_all add: products_table_def)
  from filterVisibleTableColumns_keeps_pk[OF c k, of main]
    filterVisibleTableColumns_keeps_pk[OF c k, of detail]
    filterVisibleTableColumns_keeps_pk[OF ca ka, of main]
    filterVisibleTableColumns_keeps_pk[OF cb kb, of detail]
    hidden
  show ?thesis unfolding n na nb by simp
qed

section \<open>Filters: properties\<close>

lemma filter_call_spec:
  "filter_call (numeric_type t) i k v = spec_filter_predicate (Some t) (i = 0) k v"
  by (cases v) (auto simp: filter_call_def spec_filter_predicate_def numeric_type_def)

lemma filters_forEach_declared:
  assumes "\<forall>k \<in> fst ` set fs. k \<in> name ` set (columns tbl)"
  shows "filters_forEach (getColumnsByName tbl) q i fs = Inr (q @ spec_filter_calls tbl i fs)"
  using assms
proof (induction fs arbitrary: q i)
  case Nil
  then show ?case by (simp add: spec_filter_calls_def)
next
  case (Cons e fs)
  obtain k v where e: "e = (k, v)" by (cases e)
  from Cons.prems e obtain c where c: "column_named tbl k = Some c"
    using column_named_declared[of k tbl] by auto
  have rest: "\<forall>k \<in> fst ` set fs. k \<in> name ` set (columns tbl)" using Cons.prems by simp
  show ?case
    using Cons.IH[OF rest] c e
    by (simp add: js_lookup_columns filter_call_spec spec_filter_calls_def column_type_def)
qed

lemma filters_forEach_append:
  "filters_forEach cbn q i (pre @ post) =
     (case filters_forEach cbn q i pre of
        Inl e \<Rightarrow> Inl e
      | Inr q' \<Rightarrow> filters_forEach cbn q' (i + length pre) post)"
  by (induction pre arbitrary: q i) (auto split: property.splits sum.splits)

text \<open>
  C2. For every filter map whose keys are declared columns of the table,
  \<open>applyQueryFilters\<close> raises nothing and adds to the query, in the order of the map,
  one call per entry: on a column of type \<open>int(11)\<close>, \<open>smallint(5)\<close> or \<open>datetime\<close>,
  \<open>IS NULL\<close> for \<open>null\<close>, \<open>IN\<close> for a list and equality for any other value; on a
  column of any other type, \<open>IS NULL\<close>, \<open>IN\<close>, and the pattern \<open>%value%\<close>. The first
  entry is attached with the plain call and every later one as a conjunct.
\<close>

theorem applyQueryFilters_declared:
  assumes "\<forall>k \<in> fst ` set filters. k \<in> name ` set (columns tbl)"
  shows "applyQueryFilters q filters tbl = Inr (q @ spec_filter_calls tbl 0 filters)"
  unfolding applyQueryFilters_def by (rule filters_forEach_declared[OF assms])

theorem applyQueryFilters_declared_witness:
  "applyQueryFilters [Select [''id'', ''title''], From ''events'']
     [(''rank'', JNum (Num 5)), (''title'', JStr ''la''), (''id'', JNull),
      (''note'', JNull), (''at'', JArr [JStr ''2020-01-01'', JStr ''2020-01-02''])]
     events_table =
   Inr [Select [''id'', ''title''], From ''events'',
        WhereObj ''rank'' (JNum (Num 5)),
        AndWhereLike ''title'' ''%la%'',
        AndWhereFn [WhereNull ''id''],
        AndWhereFn [WhereNull ''note''],
        WhereIn ''at'' [JStr ''2020-01-01'', JStr ''2020-01-02'']] \<and>
   applyQueryFilters [] [(''title'', JArr [JStr ''x'']), (''at'', JStr ''2020-01-01''), (''note'', JArr [])]
     events_table =
     Inr [WhereIn ''title'' [JStr ''x''], AndWhereObj ''at'' (JStr ''2020-01-01''), WhereIn ''note'' []] \<and>
   applyQueryFilters [] [(''title'', JNull)] events_table = Inr [WhereNull ''title''] \<and>
   applyQueryFilters [] [(''id'', JNull)] events_table = Inr [WhereNull ''id''] \<and>
   applyQueryFilters [] [(''title'', JStr ''la'')] events_table = Inr [WhereLike ''title'' ''%la%''] \<and>
   applyQueryFilters [] [(''id'', JNum (Num 7))] events_table = Inr [WhereObj ''id'' (JNum (Num 7))]"
proof -
  have names: "name ` set (columns events_table) = {''id'', ''rank'', ''at'', ''title'', ''note''}"
    by (auto simp: events_table_def)
  have types: "column_type events_table ''id'' = Some ''int(11)''"
    "column_type events_table ''rank'' = Some ''smallint(5)''"
    "column_type events_table ''at'' = Some ''datetime''"
    "column_type events_table ''title'' = Some ''varchar(255)''"
    "column_type events_table ''note'' = Some ''text''"
    by (simp_all add: column_type_def column_named_def events_table_def)
  have enum: "enumerate 0 (x0 # x1 # x2 # x3 # x4 # xs) =
      (0, x0) # (1, x1) # (2, x2) # (3, x3) # (4, x4) # enumerate 5 xs"
    for x0 x1 x2 x3 x4 :: "string \<times> jsval" and xs
    by (simp add: enumerate_simps(2)[of 0] eval_nat_numeral)
  show ?thesis
    using
      applyQueryFilters_declared[of
        "[(''rank'', JNum (Num 5)), (''title'', JStr ''la''), (''id'', JNull),
          (''note'', JNull), (''at'', JArr [JStr ''2020-01-01'', JStr ''2020-01-02''])]"
        events_table "[Select [''id'', ''title''], From ''events'']"]
      applyQueryFilters_declared[of
        "[(''title'', JArr [JStr ''x'']), (''at'', JStr ''2020-01-01''), (''note'', JArr [])]"
        events_table "[]"]
      applyQueryFilters_declared[of "[(''title'', JNull)]" events_table "[]"]
      applyQueryFilters_declared[of "[(''id'', JNull)]" events_table "[]"]
      applyQueryFilters_declared[of "[(''title'', JStr ''la'')]" events_table "[]"]
      applyQueryFilters_declared[of "[(''id'', JNum (Num 7))]" events_table "[]"]
    by (simp add: names types enum spec_filter_calls_def spec_filter_predicate_def)
qed

lemma filter_call_inherited:
  "filter_call False i k v = spec_filter_predicate None (i = 0) k v"
  by (cases v) (auto simp: filter_call_def spec_filter_predicate_def)

text \<open>
  A key that is no declared column but a member of \<open>Object.prototype\<close> raises
  nothing: its \<open>type\<close> is \<open>undefined\<close> and it is filtered as text.
\<close>

lemma filters_forEach_known:
  assumes "\<forall>k \<in> fst ` set fs. k \<in> name ` set (columns tbl) \<or> k \<in> set proto_names"
  shows "filters_forEach (getColumnsByName tbl) q i fs = Inr (q @ spec_filter_calls tbl i fs)"
  using assms
proof (induction fs arbitrary: q i)
  case Nil
  then show ?case by (simp add: spec_filter_calls_def)
next
  case (Cons e fs)
  obtain k v where e: "e = (k, v)" by (cases e)
  have rest: "\<forall>k \<in> fst ` set fs. k \<in> name ` set (columns tbl) \<or> k \<in> set proto_names"
    using Cons.prems by simp
  show ?case
  proof (cases "column_named tbl k")
    case (Some c)
    then show ?thesis
      using Cons.IH[OF rest] e
      by (simp add: js_lookup_columns filter_call_spec spec_filter_calls_def column_type_def)
  next
    case None
    then have "k \<notin> name ` set (columns tbl)"
      using column_named_declared[of k tbl] by auto
    with Cons.prems e have "k \<in> set proto_names" by simp
    with None show ?thesis
      using Cons.IH[OF rest] e
      by (simp add: js_lookup_columns filter_call_inherited spec_filter_calls_def column_type_def)
  qed
qed

lemma applyQueryFilters_stops_at:
  assumes "\<forall>k' \<in> fst ` set pre. k' \<in> name ` set (columns tbl) \<or> k' \<in> set proto_names"
    and "k \<notin> name ` set (columns tbl)" and "k \<notin> set proto_names"
  shows "applyQueryFilters q (pre @ (k, v) # post) tbl =
           Inl (TypeError, q @ spec_filter_calls tbl 0 pre)"
  unfolding applyQueryFilters_def filters_forEach_append filters_forEach_known[OF assms(1)]
  using assms(2,3) by (simp add: js_lookup_columns column_named_undeclared)

text \<open>
  C9. The claim: a filter key that names no declared column makes \<open>applyQueryFilters\<close>
  fail with the typed \<open>InvalidFilter\<close> error (status 400) before any predicate is
  attached. The code has no such check: the entries before the unknown key have their
  predicates attached, and the read of \<open>columnsByName[key].type\<close> raises the runtime's
  \<open>TypeError\<close>.
\<close>

theorem applyQueryFilters_unknown_key_counterexample:
  "applyQueryFilters [] [(''id'', JNum (Num 1)), (''bogus'', JNum (Num 2))] products_table =
     Inl (TypeError, [WhereObj ''id'' (JNum (Num 1))])"
  by (simp add: applyQueryFilters_def js_lookup_columns column_named_def products_table_def
      proto_names_def filter_call_def numeric_type_def)

text \<open>
  C9, amended. When a key of the filter map names no declared column and is not a
  member inherited from \<open>Object.prototype\<close>, \<open>applyQueryFilters\<close> stops at the first
  such key with a \<open>TypeError\<close>, not an \<open>HttpException\<close>; the predicates of the
  entries before it are attached to the builder by then, and no later entry is read.
\<close>

theorem applyQueryFilters_unknown_key:
  assumes "\<exists>k \<in> fst ` set filters. k \<notin> name ` set (columns tbl) \<and> k \<notin> set proto_names"
  shows "applyQueryFilters q filters tbl =
           Inl (TypeError,
                q @ spec_filter_calls tbl 0 (takeWhile (\<lambda>e. known_key tbl (fst e)) filters))"
proof -
  let ?P = "\<lambda>e. known_key tbl (fst e)"
  from assms have "\<not> (\<forall>e \<in> set filters. ?P e)" by (auto simp: known_key_def)
  then have ne: "dropWhile ?P filters \<noteq> []" by (simp add: dropWhile_eq_Nil_conv)
  then obtain e post where d: "dropWhile ?P filters = e # post"
    by (cases "dropWhile ?P filters") auto
  then have unknown: "\<not> ?P e" using hd_dropWhile[OF ne] by simp
  obtain k v where e: "e = (k, v)" by (cases e)
  have split: "filters = takeWhile ?P filters @ (k, v) # post"
    using takeWhile_dropWhile_id[of ?P filters] d e by simp
  have pre: "\<forall>k' \<in> fst ` set (takeWhile ?P filters).
               k' \<in> name ` set (columns tbl) \<or> k' \<in> set proto_names"
    by (auto dest: set_takeWhileD simp: known_key_def)
  from unknown e have k: "k \<notin> name ` set (columns tbl)" "k \<notin> set proto_names"
    by (simp_all add: known_key_def)
  from applyQueryFilters_stops_at[OF pre k, of q v post] split show ?thesis by simp
qed

theorem applyQueryFilters_unknown_key_witness:
  "applyQueryFilters []
     [(''title'', JStr ''la''), (''toString'', JStr ''x''), (''bogus'', JNum (Num 2)), (''id'', JNull)]
     products_table =
   Inl (TypeError, [WhereLike ''title'' ''%la%'', AndWhereLike ''toString'' ''%x%'']) \<and>
   applyQueryFilters [Select [''id''], From ''products'']
     [(''bogus'', JNum (Num 2)), (''id'', JNull)] products_table =
   Inl (TypeError, [Select [''id''], From ''products''])"
proof -
  have names: "name ` set (columns products_table) = {''id'', ''title'', ''categoryId''}"
    by (auto simp: products_table_def)
  have ty: "column_type products_table ''title'' = Some ''varchar(255)''"
    "column_type products_table ''toString'' = None"
    by (simp_all add: column_type_def column_named_def products_table_def)
  have known: "known_key products_table ''title''" "known_key products_table ''toString''"
    "\<not> known_key products_table ''bogus''"
    unfolding known_key_def names by (simp_all add: proto_names_def)
  have unknown: "''bogus'' \<notin> name ` set (columns products_table) \<and> ''bogus'' \<notin> set proto_names"
    unfolding names by (simp add: proto_names_def)
  have h1: "\<exists>k \<in> fst ` set [(''title'', JStr ''la''), (''toString'', JStr ''x''),
                               (''bogus'', JNum (Num 2)), (''id'', JNull)].
              k \<notin> name ` set (columns products_table) \<and> k \<notin> set proto_names"
    using unknown by simp
  have h2: "\<exists>k \<in> fst ` set [(''bogus'', JNum (Num 2)), (''id'', JNull)].
              k \<notin> name ` set (columns products_table) \<and> k \<notin> set proto_names"
    using unknown by simp
  show ?thesis
    using applyQueryFilters_unknown_key[OF h1, of "[]"]
      applyQueryFilters_unknown_key[OF h2, of "[Select [''id''], From ''products'']"]
    by (simp add: known ty spec_filter_calls_def spec_filter_predicate_def)
qed

text \<open>A key that \<open>Object.prototype\<close> defines raises nothing: it is filtered as text.\<close>

lemma applyQueryFilters_inherited_key:
  "applyQueryFilters [] [(''constructor'', JStr ''x'')] products_table =
     Inr [WhereLike ''constructor'' ''%x%'']"
  by (simp add: applyQueryFilters_def js_lookup_columns column_named_def products_table_def
      proto_names_def filter_call_def)

section \<open>Primary-key filters: properties\<close>

lemma pk_call_spec: "pk_call (t = ''int(11)'') i k v = spec_pk_predicate (Some t) (i = 0) k v"
  by (simp add: pk_call_def spec_pk_predicate_def)

lemma pk_valid_conv:
  "(case p of PkArray ks \<Rightarrow> k \<in> set ks | PkString s \<Rightarrow> s = k) = (k \<in> set (pk_names p))"
  by (cases p) (auto simp: pk_names_def)

lemma pk_for_valid:
  assumes "set (pk_names p) \<subseteq> name ` set (columns tbl)"
    and "\<forall>k \<in> fst ` set body. k \<in> set (pk_names p)"
  shows "pk_for p (getColumnsByName tbl) q i body = Inr (q @ spec_pk_calls tbl i body)"
  using assms(2)
proof (induction body arbitrary: q i)
  case Nil
  then show ?case by (simp add: spec_pk_calls_def)
next
  case (Cons e body)
  obtain k v where e: "e = (k, v)" by (cases e)
  have k: "k \<in> set (pk_names p)" using Cons.prems e by simp
  with assms(1) obtain c where c: "column_named tbl k = Some c"
    using column_named_declared[of k tbl] by auto
  have rest: "\<forall>k \<in> fst ` set body. k \<in> set (pk_names p)" using Cons.prems by simp
  show ?case
    using Cons.IH[OF rest] c e k
    by (simp add: pk_valid_conv js_lookup_columns pk_call_spec spec_pk_calls_def column_type_def)
qed

lemma pk_for_invalid:
  assumes "set (pk_names p) \<subseteq> name ` set (columns tbl)"
    and "\<exists>k \<in> fst ` set body. k \<notin> set (pk_names p)"
  shows "\<exists>msg q'. pk_for p (getColumnsByName tbl) q i body = Inl (HttpException 412 msg, q')"
  using assms(2)
proof (induction body arbitrary: q i)
  case Nil
  then show ?case by simp
next
  case (Cons e body)
  obtain k v where e: "e = (k, v)" by (cases e)
  show ?case
  proof (cases "k \<in> set (pk_names p)")
    case False
    then show ?thesis using e by (simp add: pk_valid_conv)
  next
    case True
    with assms(1) obtain c where c: "column_named tbl k = Some c"
      using column_named_declared[of k tbl] by auto
    from True Cons.prems e have "\<exists>k \<in> fst ` set body. k \<notin> set (pk_names p)" by auto
    from Cons.IH[OF this] show ?thesis using c e True
      by (simp add: pk_valid_conv js_lookup_columns)
  qed
qed

text \<open>
  C3. On a table whose primary-key columns are columns of the table, \<open>applyPKFilters\<close>
  fails with status 412 exactly when the number of keys of the payload differs from the
  declared cardinality (1 for a single name, the length of the list for a composite key)
  or some key of the payload is not a declared primary-key column. Otherwise it raises
  nothing and adds, in payload order, an exact match for an \<open>int(11)\<close> column and a
  \<open>%value%\<close> pattern for any other, the first with the plain call and the rest as
  conjuncts. Against \<open>pk = [a, b]\<close>, the payloads \<open>{a}\<close> and \<open>{a, b, c}\<close> fail.
\<close>

theorem applyPKFilters_InvalidPrimaryKey:
  assumes "set (pk_names (pk tbl)) \<subseteq> name ` set (columns tbl)"
  shows "((\<exists>msg q'. applyPKFilters q body tbl = Inl (HttpException 412 msg, q')) \<longleftrightarrow>
            (length body \<noteq> length (pk_names (pk tbl)) \<or>
             (\<exists>k \<in> fst ` set body. k \<notin> set (pk_names (pk tbl))))) \<and>
         (length body = length (pk_names (pk tbl)) \<and>
            (\<forall>k \<in> fst ` set body. k \<in> set (pk_names (pk tbl))) \<longrightarrow>
            applyPKFilters q body tbl = Inr (q @ spec_pk_calls tbl 0 body))"
proof (cases "length body \<noteq> length (pk_names (pk tbl))")
  case True
  then have "applyPKFilters q body tbl = Inl (HttpException 412 ''Incorrect set of primary keys'', q)"
    by (cases "pk tbl") (auto simp: applyPKFilters_def pk_names_def)
  with True show ?thesis by simp
next
  case False
  then have run: "applyPKFilters q body tbl = pk_for (pk tbl) (getColumnsByName tbl) q 0 body"
    by (cases "pk tbl") (auto simp: applyPKFilters_def pk_names_def)
  show ?thesis
  proof (cases "\<exists>k \<in> fst ` set body. k \<notin> set (pk_names (pk tbl))")
    case True
    from pk_for_invalid[OF assms True] run True show ?thesis by auto
  next
    case nobad: False
    then have "\<forall>k \<in> fst ` set body. k \<in> set (pk_names (pk tbl))" by blast
    from pk_for_valid[OF assms this] run False nobad show ?thesis by auto
  qed
qed

theorem applyPKFilters_InvalidPrimaryKey_witness:
  "(\<exists>msg q'. applyPKFilters [] [(''a'', JNum (Num 1))] ab_table = Inl (HttpException 412 msg, q')) \<and>
   (\<exists>msg q'. applyPKFilters [] [(''a'', JNum (Num 1)), (''b'', JStr ''x''), (''c'', JNum (Num 3))] ab_table
        = Inl (HttpException 412 msg, q')) \<and>
   (\<exists>msg q'. applyPKFilters [] [(''a'', JNum (Num 1)), (''c'', JNum (Num 3))] ab_table
        = Inl (HttpException 412 msg, q')) \<and>
   applyPKFilters [] [(''a'', JNum (Num 1)), (''b'', JStr ''x'')] ab_table =
     Inr [WhereObj ''a'' (JNum (Num 1)), AndWhereLike ''b'' ''%x%''] \<and>
   applyPKFilters [] [(''b'', JStr ''x''), (''a'', JNum (Num 1))] ab_table =
     Inr [WhereLike ''b'' ''%x%'', AndWhereObj ''a'' (JNum (Num 1))]"
proof -
  have wf: "set (pk_names (pk ab_table)) \<subseteq> name ` set (columns ab_table)"
    by (simp add: ab_table_def pk_names_def)
  have pks: "pk_names (pk ab_table) = [''a'', ''b'']"
    by (simp add: ab_table_def pk_names_def)
  have types: "column_type ab_table ''a'' = Some ''int(11)''"
    "column_type ab_table ''b'' = Some ''varchar(32)''"
    by (simp_all add: column_type_def column_named_def ab_table_def)
  note T = applyPKFilters_InvalidPrimaryKey[OF wf, unfolded pks]
  show ?thesis
    using T[where body = "[(''a'', JNum (Num 1))]" and q = "[]"]
      T[where body = "[(''a'', JNum (Num 1)), (''b'', JStr ''x''), (''c'', JNum (Num 3))]" and q = "[]"]
      T[where body = "[(''a'', JNum (Num 1)), (''c'', JNum (Num 3))]" and q = "[]"]
      T[where body = "[(''a'', JNum (Num 1)), (''b'', JStr ''x'')]" and q = "[]"]
      T[where body = "[(''b'', JStr ''x''), (''a'', JNum (Num 1))]" and q = "[]"]
    by (simp add: types spec_pk_calls_def spec_pk_predicate_def)
qed

section \<open>Pagination: properties\<close>

lemma parseInt_0: "parseInt ''0'' = Num 0"
  by (simp add: parseInt_def is_ws_def is_digit_def digits_value_def)

lemma parseInt_2: "parseInt ''2'' = Num 2"
  by (simp add: parseInt_def is_ws_def is_digit_def digits_value_def)

lemma parseInt_10: "parseInt ''10'' = Num 10"
  by (simp add: parseInt_def is_ws_def is_digit_def digits_value_def)

lemma parseInt_abc: "parseInt ''abc'' = NaN"
  by (simp add: parseInt_def is_ws_def is_digit_def digits_value_def)

text \<open>White space before the digits is skipped, the no-break space included.\<close>

lemma parseInt_leading_space:
  "parseInt [CHR 0xA0, CHR ''5''] = Num 5"
  "parseInt [CHR 0x20, CHR 0x09, CHR ''-'', CHR ''5'', CHR ''x''] = Num (- 5)"
  by (simp_all add: parseInt_def is_ws_def is_digit_def digits_value_def)

lemma paginate_leading_space:
  "paginate q Unspecified (AsString [CHR 0xA0, CHR ''5'']) = q @ [Offset (Num 0), Limit (Num 5)]"
  by (simp add: paginate_def truthy_arg_def to_number_def parseInt_leading_space
      js_positive_def js_times_def)

text \<open>
  The parts of the pagination contract that hold: the defaults, offset = page times limit
  with the limit when the resolved limit is positive, and nothing at all otherwise.
\<close>

lemma paginate_resolved:
  "paginate q page limit =
     (if js_positive (resolved (Num 10) limit)
      then q @ [Offset (js_times (resolved (Num 0) page) (resolved (Num 10) limit)),
                Limit (resolved (Num 10) limit)]
      else q)"
  by (simp add: paginate_def resolved_def Let_def)

lemma paginate_defaults: "paginate q Unspecified Unspecified = q @ [Offset (Num 0), Limit (Num 10)]"
  by (simp add: paginate_def truthy_arg_def js_positive_def js_times_def)

lemma paginate_2_10:
  "paginate q (AsString ''2'') (AsString ''10'') = q @ [Offset (Num 20), Limit (Num 10)]"
  "paginate q (AsNumber (Num 2)) (AsNumber (Num 10)) = q @ [Offset (Num 20), Limit (Num 10)]"
  by (simp_all add: paginate_def truthy_arg_def to_number_def parseInt_2 parseInt_10
      js_positive_def js_times_def)

lemma paginate_strings_0_0: "paginate q (AsString ''0'') (AsString ''0'') = q"
  by (simp add: paginate_def truthy_arg_def to_number_def parseInt_0 js_positive_def)

text \<open>
  C4. The claim: \<open>paginate(q, page=0, limit=0)\<close> applies no limit and no offset, for
  string-typed and for number-typed inputs. The strings \<open>'0'\<close> do so. The number
  \<open>0\<close> is falsy, so \<open>if (limit)\<close> takes it for an unspecified limit: the default 10
  stays and the query gets offset 0 and limit 10.
\<close>

theorem paginate_number_zero_limit:
  "paginate q (AsNumber (Num 0)) (AsNumber (Num 0)) = q @ [Offset (Num 0), Limit (Num 10)]"
  by (simp add: paginate_def truthy_arg_def js_positive_def js_times_def)

text \<open>
  C8. The claim: a non-numeric string for \<open>page\<close> or \<open>limit\<close> is rejected with the
  \<open>InvalidPagination\<close> error (status 400). \<open>paginate\<close> raises nothing: \<open>parseInt\<close>
  reads \<open>'abc'\<close> as \<open>NaN\<close>, which is not positive, and the query comes back without
  offset and limit.
\<close>

theorem paginate_non_numeric_counterexample:
  "paginate [Select [''id''], From ''products''] Unspecified (AsString ''abc'') =
     [Select [''id''], From ''products'']"
  by (simp add: paginate_def truthy_arg_def to_number_def parseInt_abc js_positive_def)

text \<open>
  C8, amended. A non-empty string in which \<open>parseInt\<close> finds no number is accepted
  silently. As the limit, it leaves the query without offset and limit, whatever the
  page. As the page, with a limit that resolves to a positive number, it gives the
  offset \<open>NaN\<close> next to that limit.
\<close>

theorem paginate_non_numeric:
  assumes "parseInt s = NaN" and "s \<noteq> []"
  shows "paginate q page (AsString s) = q \<and>
         (js_positive (resolved (Num 10) limit) \<longrightarrow>
            paginate q (AsString s) limit = q @ [Offset NaN, Limit (resolved (Num 10) limit)])"
  using assms
  by (simp add: paginate_def resolved_def truthy_arg_def to_number_def js_positive_def js_times_def)

theorem paginate_non_numeric_witness:
  "parseInt ''abc'' = NaN \<and>
   paginate [] (AsString ''2'') (AsString ''abc'') = [] \<and>
   paginate [] (AsString ''abc'') (AsString ''10'') = [Offset NaN, Limit (Num 10)] \<and>
   paginate [] (AsString ''abc'') Unspecified = [Offset NaN, Limit (Num 10)]"
proof -
  have ne: "''abc'' \<noteq> []" by simp
  have r10: "resolved (Num 10) (AsString ''10'') = Num 10"
    by (simp add: resolved_def truthy_arg_def to_number_def parseInt_10)
  have rd: "resolved (Num 10) Unspecified = Num 10"
    by (simp add: resolved_def truthy_arg_def)
  show ?thesis
    using paginate_non_numeric[OF parseInt_abc ne, of "[]" "AsString ''2''" "AsString ''10''"]
      paginate_non_numeric[OF parseInt_abc ne, of "[]" "AsString ''2''" Unspecified]
    by (simp add: parseInt_abc r10 rd js_positive_def)
qed

section \<open>Before-hook filters: properties\<close>

lemma hook_fold:
  "foldl (\<lambda>q (column, v). case v of JArr xs \<Rightarrow> q @ [WhereIn column xs] | _ \<Rightarrow> q) q es =
     q @ map (\<lambda>(column, v). WhereIn column (list_elements v)) (filter (\<lambda>(column, v). is_list v) es)"
proof (induction es arbitrary: q)
  case Nil
  then show ?case by simp
next
  case (Cons e es)
  obtain c v where "e = (c, v)" by (cases e)
  then show ?case using Cons.IH by (cases v) (simp_all add: is_list_def list_elements_def)
qed

text \<open>
  C7. When the before-hook's result carries a filter map, the entries whose value is a
  list are added to the query, in the order of the map, each as \<open>whereIn\<close> on its
  column; an entry whose value is not a list adds nothing. So a map with scalar values
  only leaves the query as it was.
\<close>

theorem applyHookFilter_lists_only:
  assumes "js_get hookResult ''filter'' = JObj es"
  shows "applyHookFilter q hookResult =
           q @ map (\<lambda>(column, v). WhereIn column (list_elements v))
                 (filter (\<lambda>(column, v). is_list v) es) \<and>
         ((\<forall>e \<in> set es. \<not> is_list (snd e)) \<longrightarrow> applyHookFilter q hookResult = q)"
proof -
  from assms have "js_truthy hookResult"
    by (cases hookResult) (auto simp: js_get_def js_truthy_def)
  with assms have run: "applyHookFilter q hookResult =
      q @ map (\<lambda>(column, v). WhereIn column (list_elements v))
            (filter (\<lambda>(column, v). is_list v) es)"
    by (simp add: applyHookFilter_def js_truthy_def own_entries_def hook_fold)
  have "filter (\<lambda>(column, v). is_list v) es = []" if "\<forall>e \<in> set es. \<not> is_list (snd e)"
    using that by (auto simp: filter_empty_conv)
  with run show ?thesis by simp
qed

theorem applyHookFilter_lists_only_witness:
  "applyHookFilter [Select [''id''], From ''orders'']
     (JObj [(''filter'', JObj [(''status'', JArr [JStr ''active'', JStr ''pending''])])]) =
     [Select [''id''], From ''orders'', WhereIn ''status'' [JStr ''active'', JStr ''pending'']] \<and>
   applyHookFilter [Select [''id''], From ''orders'']
     (JObj [(''filter'', JObj [(''status'', JStr ''active''), (''id'', JNum (Num 3))])]) =
     [Select [''id''], From ''orders''] \<and>
   applyHookFilter []
     (JObj [(''filter'', JObj [(''owner'', JNum (Num 3)), (''status'', JArr [JStr ''active''])])]) =
     [WhereIn ''status'' [JStr ''active'']]"
proof -
  have g: "js_get (JObj [(''filter'', f)]) ''filter'' = f" for f
    by (simp add: js_get_def js_lookup_def)
  show ?thesis
    using
      applyHookFilter_lists_only[OF g[of "JObj [(''status'', JArr [JStr ''active'', JStr ''pending''])]"],
        of "[Select [''id''], From ''orders'']"]
      applyHookFilter_lists_only[OF g[of "JObj [(''status'', JStr ''active''), (''id'', JNum (Num 3))]"],
        of "[Select [''id''], From ''orders'']"]
      applyHookFilter_lists_only[OF g[of "JObj [(''owner'', JNum (Num 3)), (''status'', JArr [JStr ''active''])]"],
        of "[]"]
    by (simp add: is_list_def list_elements_def)
qed

section \<open>Many-to-many relations: properties\<close>







section \<open>Verbose related data: properties\<close>

text \<open>
  The specification's example: two rows that reference key 5 in \<open>categoryId\<close> both get
  \<open>Books\<close>; a row whose key has no related row gets \<open>undefined\<close>, and nothing is
  raised.
\<close>

lemma addVerboseRelatedData_books:
  "addVerboseRelatedData
     [[(''id'', JNum (Num 1)), (''title'', JStr ''A''), (''categoryId'', JNum (Num 5))],
      [(''id'', JNum (Num 2)), (''title'', JStr ''B''), (''categoryId'', JNum (Num 5))],
      [(''id'', JNum (Num 3)), (''title'', JStr ''C''), (''categoryId'', JNum (Num 7))]]
     products_table (run_query example_store) =
   Inr [[(''id'', JNum (Num 1)), (''title'', JStr ''A''), (''categoryId'', JStr ''Books'')],
        [(''id'', JNum (Num 2)), (''title'', JStr ''B''), (''categoryId'', JStr ''Books'')],
        [(''id'', JNum (Num 3)), (''title'', JStr ''C''), (''categoryId'', JUndefined)]]"
  by code_simp

text \<open>
  C5. The claim: verbose substitution rewrites, in each row, every column that carries a
  relation descriptor to the display value of the related row. \<open>toRequest\<close> is keyed by
  the related table and keeps the first column that names it as its
  \<open>foreignKeyColumn\<close>: when two relation columns point to the same table, both columns'
  keys are fetched and only the first column is rewritten. Here \<open>createdBy\<close> becomes
  \<open>Ann\<close> and \<open>updatedBy\<close> stays the key 2, although user 2 is \<open>Bob\<close>.
\<close>

theorem addVerboseRelatedData_shared_table:
  "addVerboseRelatedData
     [[(''id'', JNum (Num 1)), (''createdBy'', JNum (Num 1)), (''updatedBy'', JNum (Num 2))]]
     orders_table (run_query example_store) =
   Inr [[(''id'', JNum (Num 1)), (''createdBy'', JStr ''Ann''), (''updatedBy'', JNum (Num 2))]]"
  by code_simp

end
